theory Spec2Isabelle
  imports Complex_Main
begin

section \<open>Forward kinematics of the four-joint planar arm\<close>

text \<open>
  A shallow embedding of \<^verbatim>\<open>robot3D_basic_solution.py\<close>. A two-dimensional array is the
  list of its rows. The numpy arrays of the program hold float64 numbers, which the
  embedding writes as real numbers: overflow, NaN and rounding are not part of the
  model. The statements proved below are therefore only those that do not rest on the
  value of any arithmetic result: which calls raise and which return, the shapes of the
  results, the entries that are copied and not computed, and equations between results
  that the program obtains by the very same operations on the very same operands.
  Properties of the computed numbers themselves (orthonormality of a rotation, an entry
  being exactly 0 or 1 after the products) are not stated: a NaN from an overflowing
  angle breaks them in the program, where no real number does.
  The calls into the rendering library (arrows, cylinders, spheres, \<^verbatim>\<open>apply_transform\<close>,
  \<^verbatim>\<open>show\<close>) build and move meshes that none of the returned values depends on; they
  are left out.
\<close>

subsection \<open>Arrays and the exceptions of the array library\<close>

type_synonym mat = "real list list"

text \<open>
  The exceptions the program can raise: \<open>UnboundLocalError\<close> when a local variable is
  read before any branch has assigned it, \<open>IndexError\<close> for an index beyond the end of an
  array, \<open>ValueError\<close> for arrays whose shapes do not fit. \<open>InvalidAxis\<close> is the error
  the specification names for an unknown axis tag; it is listed so that statements about
  it can be written down.
\<close>

datatype exn = UnboundLocalError | IndexError | ValueError | InvalidAxis

text \<open>Sequencing of computations that may raise: the first exception ends the run.\<close>

fun and_then :: "exn + 'a \<Rightarrow> ('a \<Rightarrow> exn + 'b) \<Rightarrow> exn + 'b" where
  "and_then (Inl e) f = Inl e"
| "and_then (Inr v) f = f v"

text \<open>\<open>is_mat r c M\<close>: the array \<open>M\<close> has shape \<open>(r, c)\<close>.\<close>

definition is_mat :: "nat \<Rightarrow> nat \<Rightarrow> mat \<Rightarrow> bool" where
  "is_mat r c M = (length M = r \<and> list_all (\<lambda>row. length row = c) M)"

text \<open>\<^verbatim>\<open>Phi[i]\<close> for an index \<open>i \<ge> 0\<close> into a one-dimensional array.\<close>

definition index :: "real list \<Rightarrow> nat \<Rightarrow> exn + real" where
  "index Phi i = (if i < length Phi then Inr (Phi ! i) else Inl IndexError)"

text \<open>The columns of an array, first column first.\<close>

function transpose_mat :: "mat \<Rightarrow> mat" where
  "transpose_mat [] = []"
| "transpose_mat ([] # rows) = []"
| "transpose_mat ((x # xs) # rows) =
     (x # map hd rows) # transpose_mat (xs # map tl rows)"
  by pat_completeness auto
termination
  by (relation "measure (\<lambda>M. length (hd M))") auto

fun dot :: "real list \<Rightarrow> real list \<Rightarrow> real" where
  "dot (x # xs) (y # ys) = x * y + dot xs ys"
| "dot _ _ = 0"

text \<open>
  The operator \<^verbatim>\<open>@\<close> on two-dimensional arrays: the matrix product, and a
  \<open>ValueError\<close> unless every row of the left operand is as long as the right operand
  has rows.
\<close>

definition matmul :: "mat \<Rightarrow> mat \<Rightarrow> exn + mat" where
  "matmul A B =
     (if list_all (\<lambda>row. length row = length B) A
      then Inr (map (\<lambda>row. map (dot row) (transpose_mat B)) A)
      else Inl ValueError)"

text \<open>
  \<^verbatim>\<open>np.block([[A, B], [C, D]])\<close> joins \<open>A\<close> and \<open>B\<close> side by side, then \<open>C\<close> and \<open>D\<close>,
  then puts the second pair under the first. Joining side by side needs as many rows
  on both sides, stacking needs rows of one length.
\<close>

definition hstack :: "mat \<Rightarrow> mat \<Rightarrow> exn + mat" where
  "hstack A B = (if length A = length B then Inr (map2 (@) A B) else Inl ValueError)"

definition vstack :: "mat \<Rightarrow> mat \<Rightarrow> exn + mat" where
  "vstack A B =
     (if list_all (\<lambda>r. list_all (\<lambda>r'. length r = length r') B) A
      then Inr (A @ B) else Inl ValueError)"

definition block :: "mat \<Rightarrow> mat \<Rightarrow> mat \<Rightarrow> mat \<Rightarrow> exn + mat" where
  "block A B C D =
     and_then (hstack A B) (\<lambda>top.
     and_then (hstack C D) (\<lambda>bottom.
     vstack top bottom))"

subsection \<open>The functions of the program\<close>

text \<open>
  \<^verbatim>\<open>RotationMatrix(theta, axis_name)\<close>. The source tests \<^verbatim>\<open>'x'\<close> in an \<^verbatim>\<open>if\<close> of its
  own and \<^verbatim>\<open>'y'\<close>, \<^verbatim>\<open>'z'\<close> in a following \<^verbatim>\<open>if\<close>/\<^verbatim>\<open>elif\<close>; there is no \<^verbatim>\<open>else\<close>. The local
  \<^verbatim>\<open>rotation_matrix\<close> is \<open>None\<close> here as long as no branch has assigned it, and returning
  it unassigned raises.
\<close>

definition RotationMatrix :: "real \<Rightarrow> string \<Rightarrow> exn + mat" where
  "RotationMatrix theta axis_name =
     (let c = cos (theta * pi / 180);
          s = sin (theta * pi / 180);
          rotation_matrix =
            (if axis_name = ''x''
             then Some [[1, 0, 0],
                        [0, c, - s],
                        [0, s, c]]
             else None);
          rotation_matrix =
            (if axis_name = ''y''
             then Some [[c, 0, s],
                        [0, 1, 0],
                        [- s, 0, c]]
             else if axis_name = ''z''
             then Some [[c, - s, 0],
                        [s, c, 0],
                        [0, 0, 1]]
             else rotation_matrix)
      in case rotation_matrix of
           None \<Rightarrow> Inl UnboundLocalError
         | Some R \<Rightarrow> Inr R)"

text \<open>\<^verbatim>\<open>getLocalFrameMatrix(R_ij, t_ij)\<close>: the block matrix of a rotation and a translation.\<close>

definition getLocalFrameMatrix :: "mat \<Rightarrow> mat \<Rightarrow> exn + mat" where
  "getLocalFrameMatrix R_ij t_ij = block R_ij t_ij [[0, 0, 0]] [[1]]"

text \<open>
  \<^verbatim>\<open>forward_kinematics(Phi, L1, L2, L3, L4)\<close>, statement by statement. \<^verbatim>\<open>T_03\<close> and
  \<^verbatim>\<open>T_04\<close> are computed from \<^verbatim>\<open>T_01\<close> again, as the source does, and \<^verbatim>\<open>@\<close> associates to
  the left. \<^verbatim>\<open>[:3].flatten()\<close> keeps the first three rows of a column and lays them out
  as a one-dimensional array.
\<close>

definition forward_kinematics ::
  "real list \<Rightarrow> real \<Rightarrow> real \<Rightarrow> real \<Rightarrow> real \<Rightarrow> exn + (mat \<times> mat \<times> mat \<times> mat \<times> real list)" where
  "forward_kinematics Phi L1 L2 L3 L4 =
     and_then (index Phi 0) (\<lambda>phi0.
     and_then (RotationMatrix phi0 ''z'') (\<lambda>R_01.
     let p1 = [[3], [2], [0]]; t_01 = p1 in
     and_then (getLocalFrameMatrix R_01 t_01) (\<lambda>T_01.
     and_then (index Phi 1) (\<lambda>phi1.
     and_then (RotationMatrix phi1 ''z'') (\<lambda>R_12.
     let p2 = [[L1 + 0.8], [0], [0]]; t_12 = p2 in
     and_then (getLocalFrameMatrix R_12 t_12) (\<lambda>T_12.
     and_then (matmul T_01 T_12) (\<lambda>T_02.
     and_then (index Phi 2) (\<lambda>phi2.
     and_then (RotationMatrix phi2 ''z'') (\<lambda>R_23.
     let p3 = [[L2 + 0.8], [0], [0]]; t_23 = p3 in
     and_then (getLocalFrameMatrix R_23 t_23) (\<lambda>T_23.
     and_then (and_then (matmul T_01 T_12) (\<lambda>M. matmul M T_23)) (\<lambda>T_03.
     and_then (index Phi 3) (\<lambda>phi3.
     and_then (RotationMatrix phi3 ''z'') (\<lambda>R_34.
     let p4 = [[L3 + 0.4], [0], [0]]; t_34 = p4 in
     and_then (getLocalFrameMatrix R_34 t_34) (\<lambda>T_34.
     and_then (and_then (and_then (matmul T_01 T_12) (\<lambda>M. matmul M T_23))
                 (\<lambda>M. matmul M T_34)) (\<lambda>T_04.
     and_then (matmul T_04 [[0], [0], [0], [1]]) (\<lambda>v.
     let e = concat (take 3 v) in
     Inr (T_01, T_02, T_03, T_04, e)))))))))))))))))"

text \<open>
  \<^verbatim>\<open>main()\<close>: the same chain written out for the fixed lengths and angles of the
  demonstration. The value is the array \<^verbatim>\<open>x\<close> that \<^verbatim>\<open>main\<close> prints.
\<close>

definition main :: "exn + real list" where
  "main =
     (let L1 = 5; L2 = 8; L3 = 3;
          phi1 = 30; phi2 = - 50; phi3 = - 30; phi4 = 0 in
     and_then (RotationMatrix phi1 ''z'') (\<lambda>R_01.
     let p1 = [[3], [2], [0]]; t_01 = p1 in
     and_then (getLocalFrameMatrix R_01 t_01) (\<lambda>T_01.
     and_then (RotationMatrix phi2 ''z'') (\<lambda>R_12.
     let p2 = [[L1 + 0.8], [0], [0]]; t_12 = p2 in
     and_then (getLocalFrameMatrix R_12 t_12) (\<lambda>T_12.
     and_then (matmul T_01 T_12) (\<lambda>T_02.
     and_then (RotationMatrix phi3 ''z'') (\<lambda>R_23.
     let p3 = [[L2 + 0.8], [0], [0]]; t_23 = p3 in
     and_then (getLocalFrameMatrix R_23 t_23) (\<lambda>T_23.
     and_then (and_then (matmul T_01 T_12) (\<lambda>M. matmul M T_23)) (\<lambda>T_03.
     and_then (RotationMatrix phi4 ''z'') (\<lambda>R_34.
     let p4 = [[L3 + 0.4], [0], [0]]; t_34 = p4 in
     and_then (getLocalFrameMatrix R_34 t_34) (\<lambda>T_34.
     and_then (and_then (and_then (matmul T_01 T_12) (\<lambda>M. matmul M T_23))
                 (\<lambda>M. matmul M T_34)) (\<lambda>T_04.
     and_then (matmul T_04 [[0], [0], [0], [1]]) (\<lambda>v.
     let x = concat (take 3 v) in
     Inr x)))))))))))))"

subsection \<open>Notions of the specification\<close>




subsection \<open>Auxiliary notions for the proofs\<close>

text \<open>
  A transform of the plane \<open>z = 0\<close>: a 2 by 2 block, a translation in the plane, and the
  third axis left alone. \<open>rotz\<close> and \<open>zframe\<close> name the rotation about \<open>z\<close> and its
  frame, so that the proofs can keep them folded.
\<close>

definition planar :: "real \<Rightarrow> real \<Rightarrow> real \<Rightarrow> real \<Rightarrow> real \<Rightarrow> real \<Rightarrow> mat" where
  "planar a b c d x y = [[a, b, 0, x], [c, d, 0, y], [0, 0, 1, 0], [0, 0, 0, 1]]"

definition rotz :: "real \<Rightarrow> mat" where
  "rotz theta =
     [[cos (theta * pi / 180), - sin (theta * pi / 180), 0],
      [sin (theta * pi / 180), cos (theta * pi / 180), 0],
      [0, 0, 1]]"

definition zframe :: "real \<Rightarrow> real \<Rightarrow> real \<Rightarrow> mat" where
  "zframe theta x y =
     planar (cos (theta * pi / 180)) (- sin (theta * pi / 180))
            (sin (theta * pi / 180)) (cos (theta * pi / 180)) x y"

section \<open>Lemmas\<close>

subsection \<open>Shapes\<close>

lemma length_one: "length xs = Suc 0 \<longleftrightarrow> (\<exists>a. xs = [a])"
  by (cases xs) auto

lemma length_three: "length xs = 3 \<longleftrightarrow> (\<exists>a b c. xs = [a, b, c])"
  by (auto simp: numeral_3_eq_3 length_Suc_conv)

lemma is_mat_3_3:
  "is_mat 3 3 R \<longleftrightarrow> (\<exists>a b c d e f g h i. R = [[a, b, c], [d, e, f], [g, h, i]])"
  by (auto simp: is_mat_def length_three)

lemma is_mat_3_1: "is_mat 3 1 t \<longleftrightarrow> (\<exists>x y z. t = [[x], [y], [z]])"
  by (auto simp: is_mat_def length_three length_one)

lemma four_angles:
  "4 \<le> length Phi \<longleftrightarrow> (\<exists>p0 p1 p2 p3 rest. Phi = p0 # p1 # p2 # p3 # rest)"
proof
  assume "4 \<le> length Phi"
  then show "\<exists>p0 p1 p2 p3 rest. Phi = p0 # p1 # p2 # p3 # rest"
    by (cases Phi; simp; rename_tac a as; case_tac as; simp; rename_tac b bs; case_tac bs; simp;
        rename_tac c cs; case_tac cs; simp)
qed auto

lemma fewer_angles:
  assumes "length Phi < 4"
  obtains "Phi = []" | p0 where "Phi = [p0]" | p0 p1 where "Phi = [p0, p1]"
    | p0 p1 p2 where "Phi = [p0, p1, p2]"
  using assms
  by (cases Phi; simp; rename_tac a as; case_tac as; simp; rename_tac b bs; case_tac bs; simp;
      rename_tac c cs; case_tac cs; simp)

subsection \<open>The rotation builder on the axis of the joints\<close>

lemma RotationMatrix_z: "RotationMatrix theta ''z'' = Inr (rotz theta)"
  by (simp add: RotationMatrix_def rotz_def Let_def)

subsection \<open>Frames and products of planar transforms\<close>

lemma frame_explicit:
  "getLocalFrameMatrix [[a, b, c], [d, e, f], [g, h, i]] [[x], [y], [z]] =
     Inr [[a, b, c, x], [d, e, f, y], [g, h, i, z], [0, 0, 0, 1]]"
  by (simp add: getLocalFrameMatrix_def block_def hstack_def vstack_def)

lemma origin_explicit:
  "matmul [[a, b, c, x], [d, e, f, y], [g, h, i, z], [0, 0, 0, 1]] [[0], [0], [0], [1]] =
     Inr [[x], [y], [z], [1]]"
  by (simp add: matmul_def)

lemma frame_rotz: "getLocalFrameMatrix (rotz theta) [[x], [y], [0]] = Inr (zframe theta x y)"
  by (simp add: rotz_def zframe_def planar_def frame_explicit)

lemma planar_mul:
  "matmul (planar a b c d x y) (planar a' b' c' d' x' y') =
     Inr (planar (a * a' + b * c') (a * b' + b * d') (c * a' + d * c') (c * b' + d * d')
            (a * x' + b * y' + x) (c * x' + d * y' + y))"
  by (simp add: matmul_def planar_def)

lemma planar_origin:
  "matmul (planar a b c d x y) [[0], [0], [0], [1]] = Inr [[x], [y], [0], [1]]"
  by (simp add: matmul_def planar_def)



lemma is_mat_planar: "is_mat 4 4 (planar a b c d x y)"
  by (simp add: is_mat_def planar_def)

subsection \<open>The chain, unfolded\<close>

text \<open>
  With four angles at hand no statement of \<^verbatim>\<open>forward_kinematics\<close> raises, provided the
  three products and the product with the origin column are defined; the results are
  the frames and products themselves.
\<close>

lemma fk_unfold:
  assumes "matmul (zframe p0 3 2) (zframe p1 (L1 + 0.8) 0) = Inr P2"
    and "matmul P2 (zframe p2 (L2 + 0.8) 0) = Inr P3"
    and "matmul P3 (zframe p3 (L3 + 0.4) 0) = Inr P4"
    and "matmul P4 [[0], [0], [0], [1]] = Inr v"
  shows "forward_kinematics (p0 # p1 # p2 # p3 # rest) L1 L2 L3 L4 =
           Inr (zframe p0 3 2, P2, P3, P4, concat (take 3 v))"
  using assms
  by (simp add: forward_kinematics_def index_def RotationMatrix_z frame_rotz)

lemma fk_planar_Cons:
  "\<exists>a2 b2 c2 d2 x2 y2 a3 b3 c3 d3 x3 y3 a4 b4 c4 d4 x4 y4.
     matmul (zframe p0 3 2) (zframe p1 (L1 + 0.8) 0) = Inr (planar a2 b2 c2 d2 x2 y2) \<and>
     matmul (planar a2 b2 c2 d2 x2 y2) (zframe p2 (L2 + 0.8) 0) = Inr (planar a3 b3 c3 d3 x3 y3) \<and>
     matmul (planar a3 b3 c3 d3 x3 y3) (zframe p3 (L3 + 0.4) 0) = Inr (planar a4 b4 c4 d4 x4 y4) \<and>
     forward_kinematics (p0 # p1 # p2 # p3 # rest) L1 L2 L3 L4 =
       Inr (zframe p0 3 2, planar a2 b2 c2 d2 x2 y2, planar a3 b3 c3 d3 x3 y3,
            planar a4 b4 c4 d4 x4 y4, [x4, y4, 0])"
proof -
  obtain a2 b2 c2 d2 x2 y2 where
    P2: "matmul (zframe p0 3 2) (zframe p1 (L1 + 0.8) 0) = Inr (planar a2 b2 c2 d2 x2 y2)"
    unfolding zframe_def planar_mul by blast
  obtain a3 b3 c3 d3 x3 y3 where
    P3: "matmul (planar a2 b2 c2 d2 x2 y2) (zframe p2 (L2 + 0.8) 0) = Inr (planar a3 b3 c3 d3 x3 y3)"
    unfolding zframe_def planar_mul by blast
  obtain a4 b4 c4 d4 x4 y4 where
    P4: "matmul (planar a3 b3 c3 d3 x3 y3) (zframe p3 (L3 + 0.4) 0) = Inr (planar a4 b4 c4 d4 x4 y4)"
    unfolding zframe_def planar_mul by blast
  have "forward_kinematics (p0 # p1 # p2 # p3 # rest) L1 L2 L3 L4 =
       Inr (zframe p0 3 2, planar a2 b2 c2 d2 x2 y2, planar a3 b3 c3 d3 x3 y3,
            planar a4 b4 c4 d4 x4 y4, [x4, y4, 0])"
    using fk_unfold [OF P2 P3 P4 planar_origin] by simp
  with P2 P3 P4 show ?thesis by blast
qed

lemma fk_short:
  assumes "length Phi < 4"
  shows "forward_kinematics Phi L1 L2 L3 L4 = Inl IndexError"
  using assms
proof (cases rule: fewer_angles)
  case 1
  then show ?thesis
    by (simp add: forward_kinematics_def index_def)
next
  case (2 p0)
  then show ?thesis
    by (simp add: forward_kinematics_def index_def RotationMatrix_z frame_rotz)
next
  case (3 p0 p1)
  then show ?thesis
    by (simp add: forward_kinematics_def index_def RotationMatrix_z frame_rotz zframe_def
        planar_mul)
next
  case (4 p0 p1 p2)
  then show ?thesis
    by (simp add: forward_kinematics_def index_def RotationMatrix_z frame_rotz zframe_def
        planar_mul)
qed



section \<open>The claims\<close>

text \<open>
  C3. For every 3 by 3 matrix \<open>R\<close> and every 3 by 1 column \<open>t\<close>,
  \<^verbatim>\<open>getLocalFrameMatrix(R, t)\<close> returns a 4 by 4 matrix whose first three rows are the
  rows of \<open>R\<close> followed by the entry of \<open>t\<close>, whose last row is \<open>[0, 0, 0, 1]\<close>, and
  which sends the homogeneous origin \<open>[0, 0, 0, 1]\<close> to \<open>t\<close> followed by 1.
\<close>

theorem getLocalFrameMatrix_block:
  assumes "is_mat 3 3 R" and "is_mat 3 1 t"
  shows "\<exists>T. getLocalFrameMatrix R t = Inr T \<and> is_mat 4 4 T \<and>
             (\<forall>i<3. take 3 (T ! i) = R ! i \<and> drop 3 (T ! i) = t ! i) \<and>
             T ! 3 = [0, 0, 0, 1] \<and>
             matmul T [[0], [0], [0], [1]] = Inr (t @ [[1]])"
proof -
  from assms(1) obtain a b c d e f g h i where R: "R = [[a, b, c], [d, e, f], [g, h, i]]"
    unfolding is_mat_3_3 by blast
  from assms(2) obtain x y z where t: "t = [[x], [y], [z]]"
    unfolding is_mat_3_1 by blast
  have "\<And>i::nat. i < 3 \<longleftrightarrow> i = 0 \<or> i = 1 \<or> i = 2" by auto
  then show ?thesis
    by (simp add: R t frame_explicit origin_explicit is_mat_def)
qed

theorem getLocalFrameMatrix_block_witness:
  "is_mat 3 3 [[0, - 1, 0], [1, 0, 0], [0, 0, 1]] \<and> is_mat 3 1 [[3], [2], [0]] \<and>
   (\<exists>T. getLocalFrameMatrix [[0, - 1, 0], [1, 0, 0], [0, 0, 1]] [[3], [2], [0]] = Inr T \<and>
        is_mat 4 4 T \<and>
        (\<forall>i<3. take 3 (T ! i) = [[0, - 1, 0], [1, 0, 0], [0, 0, 1]] ! i \<and>
                drop 3 (T ! i) = [[3], [2], [0]] ! i) \<and>
        T ! 3 = [0, 0, 0, 1] \<and>
        matmul T [[0], [0], [0], [1]] = Inr ([[3], [2], [0]] @ [[1]]))"
proof -
  have h1: "is_mat 3 3 [[0, - 1, 0], [1, 0, 0], [0, 0, 1]]"
    by (simp add: is_mat_def)
  have h2: "is_mat 3 1 [[3], [2], [0]]"
    by (simp add: is_mat_def)
  show ?thesis
    using h1 h2 getLocalFrameMatrix_block [OF h1 h2] by blast
qed



text \<open>
  C6, as the code has it. For every axis tag other than \<open>x\<close>, \<open>y\<close> and \<open>z\<close>,
  \<^verbatim>\<open>RotationMatrix\<close> returns no value: no branch assigns \<^verbatim>\<open>rotation_matrix\<close>, and the
  \<^verbatim>\<open>return\<close> raises \<open>UnboundLocalError\<close>. The error is the interpreter's, not an
  \<open>InvalidAxis\<close> of the function's own.
\<close>

theorem RotationMatrix_unknown_axis:
  assumes "a \<notin> {''x'', ''y'', ''z''}"
  shows "RotationMatrix theta a = Inl UnboundLocalError"
  using assms by (simp add: RotationMatrix_def)

theorem RotationMatrix_unknown_axis_witness:
  "''w'' \<notin> {''x'', ''y'', ''z''} \<and> RotationMatrix 45 ''w'' = Inl UnboundLocalError"
  using RotationMatrix_unknown_axis [of "''w''" 45] by simp

text \<open>
  C6, as the claim states it, fails: for the axis tag \<open>w\<close> the error raised is not
  \<open>InvalidAxis\<close>.
\<close>

theorem RotationMatrix_not_InvalidAxis:
  "''w'' \<notin> {''x'', ''y'', ''z''} \<and> RotationMatrix 45 ''w'' \<noteq> Inl InvalidAxis"
  by (simp add: RotationMatrix_def)

text \<open>
  C7, as the code has it. \<^verbatim>\<open>forward_kinematics\<close> solves the chain of four joints that is
  written into it: with at least four angles it returns four cumulative transforms,
  each 4 by 4, and an end-effector position of three coordinates; with fewer than four
  angles, the empty array among them, it raises \<open>IndexError\<close>.
\<close>

theorem forward_kinematics_four_joints:
  "(4 \<le> length Phi \<longrightarrow>
      (\<exists>T_01 T_02 T_03 T_04 e.
         forward_kinematics Phi L1 L2 L3 L4 = Inr (T_01, T_02, T_03, T_04, e) \<and>
         is_mat 4 4 T_01 \<and> is_mat 4 4 T_02 \<and> is_mat 4 4 T_03 \<and> is_mat 4 4 T_04 \<and>
         length e = 3)) \<and>
   (length Phi < 4 \<longrightarrow> forward_kinematics Phi L1 L2 L3 L4 = Inl IndexError)"
proof (intro conjI impI)
  assume "4 \<le> length Phi"
  then obtain p0 p1 p2 p3 rest where Phi: "Phi = p0 # p1 # p2 # p3 # rest"
    unfolding four_angles by blast
  obtain a2 b2 c2 d2 x2 y2 a3 b3 c3 d3 x3 y3 a4 b4 c4 d4 x4 y4 where
    "forward_kinematics (p0 # p1 # p2 # p3 # rest) L1 L2 L3 L4 =
       Inr (zframe p0 3 2, planar a2 b2 c2 d2 x2 y2, planar a3 b3 c3 d3 x3 y3,
            planar a4 b4 c4 d4 x4 y4, [x4, y4, 0])"
    using fk_planar_Cons [of p0 p1 L1 p2 L2 p3 L3 rest L4] by blast
  then show "\<exists>T_01 T_02 T_03 T_04 e.
         forward_kinematics Phi L1 L2 L3 L4 = Inr (T_01, T_02, T_03, T_04, e) \<and>
         is_mat 4 4 T_01 \<and> is_mat 4 4 T_02 \<and> is_mat 4 4 T_03 \<and> is_mat 4 4 T_04 \<and>
         length e = 3"
    by (simp add: Phi zframe_def is_mat_planar)
next
  assume "length Phi < 4"
  then show "forward_kinematics Phi L1 L2 L3 L4 = Inl IndexError"
    by (rule fk_short)
qed

theorem forward_kinematics_four_joints_witness:
  "4 \<le> length [90, - 90, 180, 0 :: real] \<and>
   (\<exists>T_01 T_02 T_03 T_04 e.
      forward_kinematics [90, - 90, 180, 0] 1 2 3 4 = Inr (T_01, T_02, T_03, T_04, e) \<and>
      is_mat 4 4 T_01 \<and> is_mat 4 4 T_02 \<and> is_mat 4 4 T_03 \<and> is_mat 4 4 T_04 \<and>
      length e = 3) \<and>
   length [30, - 50, - 30 :: real] < 4 \<and>
   forward_kinematics [30, - 50, - 30] 5 8 3 0 = Inl IndexError"
  using forward_kinematics_four_joints [of "[90, - 90, 180, 0]" 1 2 3 4]
    forward_kinematics_four_joints [of "[30, - 50, - 30]" 5 8 3 0]
  by simp

text \<open>
  C7, as the claim states it, fails: for the empty chain the call ends in an error
  instead of a result.
\<close>

theorem forward_kinematics_empty_chain:
  "forward_kinematics [] 5 8 3 0 = Inl IndexError"
  by (simp add: forward_kinematics_def index_def)

text \<open>
  C8. For the lengths 5, 8, 3 and the angles 30, -50, -30, 0 degrees,
  \<^verbatim>\<open>forward_kinematics\<close> returns, whatever \<open>L4\<close> is, and its end-effector position is the
  array that \<^verbatim>\<open>main\<close> computes and prints for the same figures.
\<close>

theorem forward_kinematics_matches_main:
  "\<exists>T_01 T_02 T_03 T_04 e.
     forward_kinematics [30, - 50, - 30, 0] 5 8 3 L4 = Inr (T_01, T_02, T_03, T_04, e) \<and>
     main = Inr e \<and> length e = 3"
  by (simp add: forward_kinematics_def main_def index_def RotationMatrix_z frame_rotz
      zframe_def planar_mul planar_origin)

text \<open>
  C9. The result of \<^verbatim>\<open>forward_kinematics\<close>, transforms, position or error, is the same
  for any two values of \<open>L4\<close>.
\<close>

theorem forward_kinematics_ignores_L4:
  "forward_kinematics Phi L1 L2 L3 L4 = forward_kinematics Phi L1 L2 L3 L4'"
  by (simp add: forward_kinematics_def)

end
